theory Spec2Isabelle
  imports Main "HOL-Library.Log_Nat" "HOL-Library.AList"
begin

section \<open>JavaScript numbers\<close>

text \<open>
  The storage layer keeps every monetary field as a decimal string and computes on it
  with \<^verbatim>\<open>parseFloat\<close>, the operators \<^verbatim>\<open>+ - * /\<close> and \<^verbatim>\<open>toString\<close>, that is in
  IEEE-754 binary64. A number is modelled by its exact rational value, or one of the three
  special values; every arithmetic result is rounded to the nearest double, ties to even,
  with gradual underflow (the grid of multiples of \<open>2 powi -1074\<close>) and overflow to an
  infinity when the rounded magnitude reaches \<open>2 ^ 1024\<close>, that is when its binary
  exponent exceeds 1023.

  Negative zero is identified with zero. The program can tell them apart only by
  dividing by a zero, which happens only in the buy branch of
  \<^verbatim>\<open>updateHoldingFromTransaction\<close>; there the divisor is a sum, a sum is \<open>-0\<close> only when
  both summands are, and then the dividend is a zero or NaN and the quotient is NaN for
  either sign.
\<close>

datatype number = Num rat | PosInf | NegInf | NaN

definition floor_log2 :: "rat \<Rightarrow> int" where
  "floor_log2 a =
     (let (p, q) = quotient_of a;
          d = bitlen p - bitlen q
      in if 2 powi d \<le> a then d else d - 1)"

definition round_half_even :: "rat \<Rightarrow> int" where
  "round_half_even y =
     (let f = \<lfloor>y\<rfloor>; d = y - of_int f
      in if d < 1 / 2 then f
         else if 1 / 2 < d then f + 1
         else if even f then f else f + 1)"

definition inf_of :: "bool \<Rightarrow> number" where
  "inf_of positive = (if positive then PosInf else NegInf)"

definition round_to_double :: "rat \<Rightarrow> number" where
  "round_to_double x =
     (if x = 0 then Num 0
      else let a = \<bar>x\<bar>;
               q = max (floor_log2 a - 52) (- 1074);
               r = of_int (round_half_even (a / 2 powi q)) * 2 powi q
           in if 1023 < floor_log2 r then inf_of (0 < x)
              else Num (sgn x * r))"

fun num_neg :: "number \<Rightarrow> number" where
  "num_neg (Num a) = Num (- a)"
| "num_neg PosInf = NegInf"
| "num_neg NegInf = PosInf"
| "num_neg NaN = NaN"

fun num_add :: "number \<Rightarrow> number \<Rightarrow> number" where
  "num_add (Num a) (Num b) = round_to_double (a + b)"
| "num_add NaN _ = NaN"
| "num_add _ NaN = NaN"
| "num_add PosInf NegInf = NaN"
| "num_add NegInf PosInf = NaN"
| "num_add PosInf _ = PosInf"
| "num_add _ PosInf = PosInf"
| "num_add NegInf _ = NegInf"
| "num_add _ NegInf = NegInf"

definition num_sub :: "number \<Rightarrow> number \<Rightarrow> number" where
  "num_sub a b = num_add a (num_neg b)"

fun num_mul :: "number \<Rightarrow> number \<Rightarrow> number" where
  "num_mul (Num a) (Num b) = round_to_double (a * b)"
| "num_mul NaN _ = NaN"
| "num_mul _ NaN = NaN"
| "num_mul (Num a) PosInf = (if a = 0 then NaN else inf_of (0 < a))"
| "num_mul (Num a) NegInf = (if a = 0 then NaN else inf_of (a < 0))"
| "num_mul PosInf (Num b) = (if b = 0 then NaN else inf_of (0 < b))"
| "num_mul NegInf (Num b) = (if b = 0 then NaN else inf_of (b < 0))"
| "num_mul PosInf PosInf = PosInf"
| "num_mul PosInf NegInf = NegInf"
| "num_mul NegInf PosInf = NegInf"
| "num_mul NegInf NegInf = PosInf"

fun num_div :: "number \<Rightarrow> number \<Rightarrow> number" where
  "num_div (Num a) (Num b) =
     (if b = 0 then (if a = 0 then NaN else inf_of (0 < a))
      else round_to_double (a / b))"
| "num_div NaN _ = NaN"
| "num_div _ NaN = NaN"
| "num_div (Num a) _ = Num 0"
| "num_div PosInf (Num b) = inf_of (0 \<le> b)"
| "num_div NegInf (Num b) = inf_of (b < 0)"
| "num_div PosInf PosInf = NaN"
| "num_div PosInf NegInf = NaN"
| "num_div NegInf PosInf = NaN"
| "num_div NegInf NegInf = NaN"

text \<open>The comparisons \<^verbatim>\<open><\<close> and \<^verbatim>\<open><=\<close>; both are false when an operand is NaN.\<close>

fun num_lt :: "number \<Rightarrow> number \<Rightarrow> bool" where
  "num_lt (Num a) (Num b) = (a < b)"
| "num_lt NaN _ = False"
| "num_lt _ NaN = False"
| "num_lt PosInf _ = False"
| "num_lt _ PosInf = True"
| "num_lt _ NegInf = False"
| "num_lt NegInf _ = True"

fun num_le :: "number \<Rightarrow> number \<Rightarrow> bool" where
  "num_le (Num a) (Num b) = (a \<le> b)"
| "num_le NaN _ = False"
| "num_le _ NaN = False"
| "num_le _ PosInf = True"
| "num_le PosInf _ = False"
| "num_le NegInf _ = True"
| "num_le _ NegInf = False"

definition num_gt :: "number \<Rightarrow> number \<Rightarrow> bool" where
  "num_gt a b = num_lt b a"

subsection \<open>Decimal strings\<close>

text \<open>
  A decimal-string field is modelled up to what \<^verbatim>\<open>parseFloat\<close> and \<^verbatim>\<open>||\<close> can see of
  it: the exact rational value of its longest numeric prefix, one of the two infinity
  literals, a string with no numeric prefix, or the empty string (which \<^verbatim>\<open>||\<close> treats
  as absent). \<^verbatim>\<open>toString\<close> of a finite double returns a decimal that parses back to
  the same double; the model writes the double's own value.
\<close>

datatype numstr = Decimal rat | InfinityStr | NegInfinityStr | NonNumeric | EmptyStr

fun parseFloat :: "numstr \<Rightarrow> number" where
  "parseFloat (Decimal r) = round_to_double r"
| "parseFloat InfinityStr = PosInf"
| "parseFloat NegInfinityStr = NegInf"
| "parseFloat NonNumeric = NaN"
| "parseFloat EmptyStr = NaN"

fun toString :: "number \<Rightarrow> numstr" where
  "toString (Num a) = Decimal a"
| "toString PosInf = InfinityStr"
| "toString NegInf = NegInfinityStr"
| "toString NaN = NonNumeric"

text \<open>\<^verbatim>\<open>s || "0"\<close> on a nullable string: null, undefined and the empty string give "0".\<close>

fun or_zero :: "numstr option \<Rightarrow> numstr" where
  "or_zero None = Decimal 0"
| "or_zero (Some EmptyStr) = Decimal 0"
| "or_zero (Some s) = s"

section \<open>Data model (shared/schema)\<close>

text \<open>Dates are milliseconds since the epoch, as integers.\<close>

record portfolio =
  p_id :: string
  p_name :: string
  p_description :: "string option"
  p_externalIdentifier :: "string option"
  p_taxResidency :: string
  p_financialYearEnd :: string
  p_performanceCalculationMethod :: string
  p_baseCurrency :: string
  p_createdAt :: int

record holding =
  h_id :: string
  h_portfolioId :: string
  h_symbol :: string
  h_companyName :: string
  h_exchange :: string
  h_currency :: string
  h_quantity :: numstr
  h_averageCost :: numstr
  h_currentPrice :: "numstr option"
  h_lastUpdated :: int

record insert_holding =
  ih_portfolioId :: string
  ih_symbol :: string
  ih_companyName :: string
  ih_exchange :: string
  ih_currency :: string
  ih_quantity :: numstr
  ih_averageCost :: numstr

text \<open>\<^verbatim>\<open>Partial<InsertHolding>\<close>: every field may be absent.\<close>

record holding_update =
  u_portfolioId :: "string option"
  u_symbol :: "string option"
  u_companyName :: "string option"
  u_exchange :: "string option"
  u_currency :: "string option"
  u_quantity :: "numstr option"
  u_averageCost :: "numstr option"

record insert_transaction =
  it_portfolioId :: string
  it_symbol :: string
  it_type :: string
  it_quantity :: numstr
  it_price :: numstr
  it_totalAmount :: numstr
  it_fees :: "numstr option"
  it_currency :: string
  it_exchange :: string
  it_date :: int

record transaction =
  t_id :: string
  t_portfolioId :: string
  t_symbol :: string
  t_type :: string
  t_quantity :: numstr
  t_price :: numstr
  t_totalAmount :: numstr
  t_fees :: "numstr option"
  t_currency :: string
  t_exchange :: string
  t_date :: int
  t_createdAt :: int

record market_data =
  md_id :: string
  md_symbol :: string
  md_price :: numstr
  md_change :: "numstr option"
  md_changePercent :: "numstr option"
  md_volume :: "int option"
  md_marketCap :: "numstr option"
  md_lastUpdated :: int

record portfolio_with_metrics =
  pm_portfolio :: portfolio
  pm_totalValue :: number
  pm_totalGain :: number
  pm_totalGainPercent :: number
  pm_dividendYield :: number
  pm_holdingsCount :: nat

record holding_with_metrics =
  hm_holding :: holding
  hm_currentValue :: number
  hm_totalGain :: number
  hm_totalGainPercent :: number
  hm_marketData :: "market_data option"

section \<open>MemStorage (server/storage.ts)\<close>

text \<open>
  A JavaScript \<^verbatim>\<open>Map\<close> keeps its entries in insertion order: \<^verbatim>\<open>set\<close> on a present key
  replaces the value in place, on a new key appends; \<^verbatim>\<open>values()\<close> iterates in that order.
  This is an association list with \<^const>\<open>AList.update\<close>, \<^const>\<open>AList.delete\<close> and
  \<^const>\<open>map_of\<close>.
\<close>

record mem_storage =
  portfolios :: "(string \<times> portfolio) list"
  holdings :: "(string \<times> holding) list"
  transactions :: "(string \<times> transaction) list"
  marketData :: "(string \<times> market_data) list"

definition map_values :: "('k \<times> 'v) list \<Rightarrow> 'v list" where
  "map_values m = map snd m"

text \<open>
  What one call draws from outside the store: the results of \<^verbatim>\<open>randomUUID()\<close> and
  \<^verbatim>\<open>new Date()\<close>, for the transaction and for the holding it creates or updates.
\<close>

record draws =
  txn_uuid :: string
  txn_now :: int
  holding_uuid :: string
  holding_now :: int

definition getHoldings :: "string \<Rightarrow> mem_storage \<Rightarrow> holding list" where
  "getHoldings portfolioId s =
     filter (\<lambda>h. h_portfolioId h = portfolioId) (map_values (holdings s))"

definition getHolding :: "string \<Rightarrow> mem_storage \<Rightarrow> holding option" where
  "getHolding ident s = map_of (holdings s) ident"

definition createHolding ::
  "string \<Rightarrow> int \<Rightarrow> insert_holding \<Rightarrow> mem_storage \<Rightarrow> holding \<times> mem_storage" where
  "createHolding uuid now ih s =
     (let h = \<lparr> h_id = uuid,
                 h_portfolioId = ih_portfolioId ih,
                 h_symbol = ih_symbol ih,
                 h_companyName = ih_companyName ih,
                 h_exchange = ih_exchange ih,
                 h_currency = ih_currency ih,
                 h_quantity = ih_quantity ih,
                 h_averageCost = ih_averageCost ih,
                 h_currentPrice = None,
                 h_lastUpdated = now \<rparr>
      in (h, s\<lparr>holdings := AList.update (h_id h) h (holdings s)\<rparr>))"

text \<open>\<^verbatim>\<open>{ ...holding, ...update }\<close>: a field present in the update replaces the holding's.\<close>

definition spread_update :: "holding \<Rightarrow> holding_update \<Rightarrow> holding" where
  "spread_update h u =
     h\<lparr> h_portfolioId := (case u_portfolioId u of None \<Rightarrow> h_portfolioId h | Some v \<Rightarrow> v),
        h_symbol := (case u_symbol u of None \<Rightarrow> h_symbol h | Some v \<Rightarrow> v),
        h_companyName := (case u_companyName u of None \<Rightarrow> h_companyName h | Some v \<Rightarrow> v),
        h_exchange := (case u_exchange u of None \<Rightarrow> h_exchange h | Some v \<Rightarrow> v),
        h_currency := (case u_currency u of None \<Rightarrow> h_currency h | Some v \<Rightarrow> v),
        h_quantity := (case u_quantity u of None \<Rightarrow> h_quantity h | Some v \<Rightarrow> v),
        h_averageCost := (case u_averageCost u of None \<Rightarrow> h_averageCost h | Some v \<Rightarrow> v) \<rparr>"

definition updateHolding ::
  "string \<Rightarrow> holding_update \<Rightarrow> int \<Rightarrow> mem_storage \<Rightarrow> holding option \<times> mem_storage" where
  "updateHolding ident u now s =
     (case map_of (holdings s) ident of
        None \<Rightarrow> (None, s)
      | Some h \<Rightarrow>
          let updated = (spread_update h u)\<lparr>h_lastUpdated := now\<rparr>
          in (Some updated, s\<lparr>holdings := AList.update ident updated (holdings s)\<rparr>))"

definition deleteHolding :: "string \<Rightarrow> mem_storage \<Rightarrow> bool \<times> mem_storage" where
  "deleteHolding ident s =
     (ident \<in> fst ` set (holdings s), s\<lparr>holdings := AList.delete ident (holdings s)\<rparr>)"

text \<open>
  \<^verbatim>\<open>const { id, currentPrice, lastUpdated, ...holdingUpdate } = holding\<close>: the remaining
  seven fields, all present.
\<close>

definition holdingUpdate :: "holding \<Rightarrow> holding_update" where
  "holdingUpdate h =
     \<lparr> u_portfolioId = Some (h_portfolioId h),
       u_symbol = Some (h_symbol h),
       u_companyName = Some (h_companyName h),
       u_exchange = Some (h_exchange h),
       u_currency = Some (h_currency h),
       u_quantity = Some (h_quantity h),
       u_averageCost = Some (h_averageCost h) \<rparr>"

text \<open>The first holding, in insertion order, of the transaction's portfolio and symbol.\<close>

definition matching_holdings :: "string \<Rightarrow> string \<Rightarrow> mem_storage \<Rightarrow> holding list" where
  "matching_holdings portfolioId symbol s =
     filter (\<lambda>h. h_portfolioId h = portfolioId \<and> h_symbol h = symbol) (map_values (holdings s))"

definition first_holding :: "string \<Rightarrow> string \<Rightarrow> mem_storage \<Rightarrow> holding option" where
  "first_holding portfolioId symbol s =
     (case matching_holdings portfolioId symbol s of [] \<Rightarrow> None | h # _ \<Rightarrow> Some h)"

definition updateHoldingFromTransaction ::
  "draws \<Rightarrow> transaction \<Rightarrow> mem_storage \<Rightarrow> mem_storage" where
  "updateHoldingFromTransaction d t s =
     (let holding = first_holding (t_portfolioId t) (t_symbol t) s in
      if t_type t = ''buy'' then
        (case holding of
           Some h \<Rightarrow>
             let existingQuantity = parseFloat (h_quantity h);
                 existingCost = parseFloat (h_averageCost h);
                 transactionQuantity = parseFloat (t_quantity t);
                 transactionPrice = parseFloat (t_price t);
                 newQuantity = num_add existingQuantity transactionQuantity;
                 newAverageCost =
                   num_div (num_add (num_mul existingQuantity existingCost)
                                    (num_mul transactionQuantity transactionPrice))
                           newQuantity
             in snd (updateHolding (h_id h)
                       ((holdingUpdate h)\<lparr> u_quantity := Some (toString newQuantity),
                                            u_averageCost := Some (toString newAverageCost) \<rparr>)
                       (holding_now d) s)
         | None \<Rightarrow>
             snd (createHolding (holding_uuid d) (holding_now d)
                    \<lparr> ih_portfolioId = t_portfolioId t,
                      ih_symbol = t_symbol t,
                      ih_companyName = t_symbol t,
                      ih_exchange = t_exchange t,
                      ih_currency = t_currency t,
                      ih_quantity = t_quantity t,
                      ih_averageCost = t_price t \<rparr> s))
      else if t_type t = ''sell'' then
        (case holding of
           Some h \<Rightarrow>
             let existingQuantity = parseFloat (h_quantity h);
                 transactionQuantity = parseFloat (t_quantity t);
                 newQuantity = num_sub existingQuantity transactionQuantity
             in if num_le newQuantity (Num 0) then snd (deleteHolding (h_id h) s)
                else snd (updateHolding (h_id h)
                            ((holdingUpdate h)\<lparr> u_quantity := Some (toString newQuantity) \<rparr>)
                            (holding_now d) s)
         | None \<Rightarrow> s)
      else s)"

text \<open>The object literal \<^verbatim>\<open>transaction\<close> that \<^verbatim>\<open>createTransaction\<close> builds and returns.\<close>

definition newTransaction :: "draws \<Rightarrow> insert_transaction \<Rightarrow> transaction" where
  "newTransaction d it =
     \<lparr> t_id = txn_uuid d,
       t_portfolioId = it_portfolioId it,
       t_symbol = it_symbol it,
       t_type = it_type it,
       t_quantity = it_quantity it,
       t_price = it_price it,
       t_totalAmount = it_totalAmount it,
       t_fees = Some (or_zero (it_fees it)),
       t_currency = it_currency it,
       t_exchange = it_exchange it,
       t_date = it_date it,
       t_createdAt = txn_now d \<rparr>"

definition createTransaction ::
  "draws \<Rightarrow> insert_transaction \<Rightarrow> mem_storage \<Rightarrow> transaction \<times> mem_storage" where
  "createTransaction d it s =
     (let t = newTransaction d it;
          s1 = s\<lparr>transactions := AList.update (t_id t) t (transactions s)\<rparr>
      in (t, updateHoldingFromTransaction d t s1))"

definition holdingMetrics :: "mem_storage \<Rightarrow> holding \<Rightarrow> holding_with_metrics" where
  "holdingMetrics s h =
     (let currentPrice = parseFloat (or_zero (h_currentPrice h));
          quantity = parseFloat (h_quantity h);
          averageCost = parseFloat (h_averageCost h);
          currentValue = num_mul currentPrice quantity;
          totalCost = num_mul averageCost quantity;
          totalGain = num_sub currentValue totalCost;
          totalGainPercent =
            (if num_gt totalCost (Num 0) then num_mul (num_div totalGain totalCost) (Num 100)
             else Num 0)
      in \<lparr> hm_holding = h,
           hm_currentValue = currentValue,
           hm_totalGain = totalGain,
           hm_totalGainPercent = totalGainPercent,
           hm_marketData = map_of (marketData s) (h_symbol h) \<rparr>)"

definition getHoldingsWithMetrics :: "string \<Rightarrow> mem_storage \<Rightarrow> holding_with_metrics list" where
  "getHoldingsWithMetrics portfolioId s = map (holdingMetrics s) (getHoldings portfolioId s)"

text \<open>The body of the \<^verbatim>\<open>for\<close> loop of \<^verbatim>\<open>getPortfolioWithMetrics\<close>, on (totalValue, totalCost).\<close>

definition accumulate :: "number \<times> number \<Rightarrow> holding \<Rightarrow> number \<times> number" where
  "accumulate acc h =
     (let currentPrice = parseFloat (or_zero (h_currentPrice h));
          quantity = parseFloat (h_quantity h);
          averageCost = parseFloat (h_averageCost h)
      in (num_add (fst acc) (num_mul currentPrice quantity),
          num_add (snd acc) (num_mul averageCost quantity)))"

definition getPortfolioWithMetrics :: "string \<Rightarrow> mem_storage \<Rightarrow> portfolio_with_metrics option" where
  "getPortfolioWithMetrics ident s =
     (case map_of (portfolios s) ident of
        None \<Rightarrow> None
      | Some p \<Rightarrow>
          let hs = filter (\<lambda>h. h_portfolioId h = ident) (map_values (holdings s));
              ts = filter (\<lambda>t. t_portfolioId t = ident) (map_values (transactions s));
              totals = foldl accumulate (Num 0, Num 0) hs;
              totalValue = fst totals;
              totalCost = snd totals;
              totalGain = num_sub totalValue totalCost;
              totalGainPercent =
                (if num_gt totalCost (Num 0) then num_mul (num_div totalGain totalCost) (Num 100)
                 else Num 0);
              dividendTransactions = filter (\<lambda>t. t_type t = ''dividend'') ts;
              annualDividends =
                foldl (\<lambda>sum t. num_add sum (parseFloat (t_totalAmount t))) (Num 0)
                  dividendTransactions;
              dividendYield =
                (if num_gt totalValue (Num 0) then num_mul (num_div annualDividends totalValue) (Num 100)
                 else Num 0)
          in Some \<lparr> pm_portfolio = p,
                     pm_totalValue = totalValue,
                     pm_totalGain = totalGain,
                     pm_totalGainPercent = totalGainPercent,
                     pm_dividendYield = dividendYield,
                     pm_holdingsCount = length hs \<rparr>)"

text \<open>
  \<^verbatim>\<open>initializeSampleData\<close>, run by the constructor: two portfolios, three holdings and two
  transactions, each stored under a fresh UUID with \<^verbatim>\<open>Map.set\<close>. The arguments are the
  UUIDs in the order they are drawn and the clock. (The two currency rates are not part
  of the modelled store.)
\<close>

definition initializeSampleData ::
  "string \<Rightarrow> string \<Rightarrow> string \<Rightarrow> string \<Rightarrow> string \<Rightarrow> string \<Rightarrow> string \<Rightarrow> int \<Rightarrow> mem_storage" where
  "initializeSampleData usId intlId appleId msftId asmlId appleBuyId msftBuyId now =
     (let usPortfolio =
            \<lparr> p_id = usId, p_name = ''US Growth Portfolio'',
              p_description = Some ''Technology and growth stocks in US markets'',
              p_externalIdentifier = None, p_taxResidency = ''US'',
              p_financialYearEnd = ''31st Dec'', p_performanceCalculationMethod = ''Simple'',
              p_baseCurrency = ''USD'', p_createdAt = now \<rparr>;
          intlPortfolio =
            \<lparr> p_id = intlId, p_name = ''International Diversified'',
              p_description = Some ''Global diversification across developed markets'',
              p_externalIdentifier = None, p_taxResidency = ''US'',
              p_financialYearEnd = ''31st Mar'', p_performanceCalculationMethod = ''TWRR'',
              p_baseCurrency = ''USD'', p_createdAt = now \<rparr>;
          appleHolding =
            \<lparr> h_id = appleId, h_portfolioId = usId, h_symbol = ''AAPL'',
              h_companyName = ''Apple Inc.'', h_exchange = ''NASDAQ'', h_currency = ''USD'',
              h_quantity = Decimal 50, h_averageCost = Decimal 150,
              h_currentPrice = Some (Decimal (351 / 2)), h_lastUpdated = now \<rparr>;
          msftHolding =
            \<lparr> h_id = msftId, h_portfolioId = usId, h_symbol = ''MSFT'',
              h_companyName = ''Microsoft Corporation'', h_exchange = ''NASDAQ'',
              h_currency = ''USD'', h_quantity = Decimal 25, h_averageCost = Decimal 280,
              h_currentPrice = Some (Decimal (1241 / 4)), h_lastUpdated = now \<rparr>;
          asmlHolding =
            \<lparr> h_id = asmlId, h_portfolioId = intlId, h_symbol = ''ASML'',
              h_companyName = ''ASML Holding N.V.'', h_exchange = ''AEX'', h_currency = ''EUR'',
              h_quantity = Decimal 10, h_averageCost = Decimal 580,
              h_currentPrice = Some (Decimal (1241 / 2)), h_lastUpdated = now \<rparr>;
          appleBuy =
            \<lparr> t_id = appleBuyId, t_portfolioId = usId, t_symbol = ''AAPL'', t_type = ''buy'',
              t_quantity = Decimal 50, t_price = Decimal 150, t_totalAmount = Decimal 7500,
              t_fees = Some (Decimal (999 / 100)), t_currency = ''USD'', t_exchange = ''NASDAQ'',
              t_date = now - 30 * 24 * 60 * 60 * 1000, t_createdAt = now \<rparr>;
          msftBuy =
            \<lparr> t_id = msftBuyId, t_portfolioId = usId, t_symbol = ''MSFT'', t_type = ''buy'',
              t_quantity = Decimal 25, t_price = Decimal 280, t_totalAmount = Decimal 7000,
              t_fees = Some (Decimal (999 / 100)), t_currency = ''USD'', t_exchange = ''NASDAQ'',
              t_date = now - 15 * 24 * 60 * 60 * 1000, t_createdAt = now \<rparr>
      in \<lparr> portfolios =
             AList.update (p_id intlPortfolio) intlPortfolio
               (AList.update (p_id usPortfolio) usPortfolio []),
           holdings =
             AList.update (h_id asmlHolding) asmlHolding
               (AList.update (h_id msftHolding) msftHolding
                 (AList.update (h_id appleHolding) appleHolding [])),
           transactions =
             AList.update (t_id msftBuy) msftBuy (AList.update (t_id appleBuy) appleBuy []),
           marketData = [] \<rparr>)"

text \<open>A run of the two public operations that add holdings.\<close>

datatype operation =
    CreateTransaction draws insert_transaction
  | CreateHolding string int insert_holding

fun run :: "operation \<Rightarrow> mem_storage \<Rightarrow> mem_storage" where
  "run (CreateTransaction d it) s = snd (createTransaction d it s)"
| "run (CreateHolding uuid now ih) s = snd (createHolding uuid now ih s)"

fun run_all :: "operation list \<Rightarrow> mem_storage \<Rightarrow> mem_storage" where
  "run_all [] s = s"
| "run_all (x # xs) s = run_all xs (run x s)"

fun createTransactions :: "(draws \<times> insert_transaction) list \<Rightarrow> mem_storage \<Rightarrow> mem_storage" where
  "createTransactions [] s = s"
| "createTransactions ((d, it) # rest) s = createTransactions rest (snd (createTransaction d it s))"

section \<open>Properties\<close>

subsection \<open>Store invariants\<close>

text \<open>
  A \<^verbatim>\<open>Map\<close> has each key once, and every holding is stored under its own id: both hold
  after the constructor and are kept by every operation of the class.
\<close>

definition holdings_wf :: "mem_storage \<Rightarrow> bool" where
  "holdings_wf s =
     (distinct (map fst (holdings s)) \<and> list_all (\<lambda>(k, h). h_id h = k) (holdings s))"

definition all_quantities_positive :: "mem_storage \<Rightarrow> bool" where
  "all_quantities_positive s =
     list_all (\<lambda>h. num_gt (parseFloat (h_quantity h)) (Num 0)) (map_values (holdings s))"

definition one_holding_per_pair :: "mem_storage \<Rightarrow> bool" where
  "one_holding_per_pair s =
     distinct (map (\<lambda>h. (h_portfolioId h, h_symbol h)) (map_values (holdings s)))"

text \<open>Every \<^verbatim>\<open>createHolding\<close> of a run is for a pair that has no holding at that moment.\<close>

fun creates_only_new_pairs :: "operation list \<Rightarrow> mem_storage \<Rightarrow> bool" where
  "creates_only_new_pairs [] s = True"
| "creates_only_new_pairs (CreateHolding uuid now ih # xs) s =
     (first_holding (ih_portfolioId ih) (ih_symbol ih) s = None
      \<and> creates_only_new_pairs xs (run (CreateHolding uuid now ih) s))"
| "creates_only_new_pairs (x # xs) s = creates_only_new_pairs xs (run x s)"

text \<open>The finite doubles are multiples of the smallest subnormal.\<close>

definition on_grid :: "rat \<Rightarrow> bool" where
  "on_grid r = (\<exists>k::int. r = of_int k * 2 powi (- 1074))"

subsection \<open>The projection, in the words of the specification\<close>

text \<open>
  A buy on an existing holding: \<open>new_quantity = existing_quantity + txn_quantity\<close> and
  \<open>new_average_cost = (existing_quantity \<times> existing_average_cost + txn_quantity \<times> txn_price)
  / new_quantity\<close>, on (quantity, averageCost) and (quantity, price), each operation in
  binary64.
\<close>

definition spec_buy_step :: "numstr \<times> numstr \<Rightarrow> numstr \<times> numstr \<Rightarrow> numstr \<times> numstr" where
  "spec_buy_step existing txn =
     (let existing_quantity = parseFloat (fst existing);
          existing_average_cost = parseFloat (snd existing);
          txn_quantity = parseFloat (fst txn);
          txn_price = parseFloat (snd txn);
          new_quantity = num_add existing_quantity txn_quantity;
          new_average_cost =
            num_div (num_add (num_mul existing_quantity existing_average_cost)
                             (num_mul txn_quantity txn_price))
                    new_quantity
      in (toString new_quantity, toString new_average_cost))"

definition is_buy_for :: "string \<Rightarrow> string \<Rightarrow> insert_transaction \<Rightarrow> bool" where
  "is_buy_for portfolioId symbol it =
     (it_type it = ''buy'' \<and> it_portfolioId it = portfolioId \<and> it_symbol it = symbol)"

definition all_buys_for :: "string \<Rightarrow> string \<Rightarrow> (draws \<times> insert_transaction) list \<Rightarrow> bool" where
  "all_buys_for portfolioId symbol bs = list_all (\<lambda>(d, it). is_buy_for portfolioId symbol it) bs"

definition quantities_and_prices :: "(draws \<times> insert_transaction) list \<Rightarrow> (numstr \<times> numstr) list" where
  "quantities_and_prices bs = map (\<lambda>(d, it). (it_quantity it, it_price it)) bs"

text \<open>The holding a buy creates when the pair has none: quantity and price of the transaction.\<close>

definition createdHolding :: "draws \<Rightarrow> insert_transaction \<Rightarrow> holding" where
  "createdHolding d it =
     \<lparr> h_id = holding_uuid d, h_portfolioId = it_portfolioId it, h_symbol = it_symbol it,
       h_companyName = it_symbol it, h_exchange = it_exchange it, h_currency = it_currency it,
       h_quantity = it_quantity it, h_averageCost = it_price it, h_currentPrice = None,
       h_lastUpdated = holding_now d \<rparr>"

text \<open>The holding of the pair after a buy, from the one before it (if any).\<close>

definition holding_after_buy :: "draws \<Rightarrow> insert_transaction \<Rightarrow> holding option \<Rightarrow> holding" where
  "holding_after_buy d it existing =
     (case existing of
        None \<Rightarrow> createdHolding d it
      | Some h \<Rightarrow>
          h\<lparr> h_quantity :=
                fst (spec_buy_step (h_quantity h, h_averageCost h) (it_quantity it, it_price it)),
             h_averageCost :=
                snd (spec_buy_step (h_quantity h, h_averageCost h) (it_quantity it, it_price it)),
             h_lastUpdated := holding_now d \<rparr>)"

subsection \<open>The metrics, in the words of the specification\<close>

text \<open>An absent (or empty) current price counts as 0.\<close>

definition spec_currentPrice :: "holding \<Rightarrow> number" where
  "spec_currentPrice h =
     (case h_currentPrice h of None \<Rightarrow> Num 0 | Some EmptyStr \<Rightarrow> Num 0 | Some p \<Rightarrow> parseFloat p)"

definition spec_currentValue :: "holding \<Rightarrow> number" where
  "spec_currentValue h = num_mul (spec_currentPrice h) (parseFloat (h_quantity h))"

definition spec_costBasis :: "holding \<Rightarrow> number" where
  "spec_costBasis h = num_mul (parseFloat (h_averageCost h)) (parseFloat (h_quantity h))"

definition spec_totalGain :: "holding \<Rightarrow> number" where
  "spec_totalGain h = num_sub (spec_currentValue h) (spec_costBasis h)"

text \<open>A percentage, 0 unless the denominator is greater than 0.\<close>

definition guarded_percent :: "number \<Rightarrow> number \<Rightarrow> number" where
  "guarded_percent numerator denominator =
     (if num_gt denominator (Num 0) then num_mul (num_div numerator denominator) (Num 100)
      else Num 0)"

text \<open>A sum in binary64, added from the left starting at 0.\<close>

definition float_sum :: "number list \<Rightarrow> number" where
  "float_sum xs = foldl num_add (Num 0) xs"

definition dividends :: "string \<Rightarrow> mem_storage \<Rightarrow> transaction list" where
  "dividends ident s =
     filter (\<lambda>t. t_portfolioId t = ident \<and> t_type t = ''dividend'') (map_values (transactions s))"

definition dividend_total :: "string \<Rightarrow> mem_storage \<Rightarrow> number" where
  "dividend_total ident s =
     float_sum (map (\<lambda>t. parseFloat (t_totalAmount t)) (dividends ident s))"

subsection \<open>Rounding tolerance\<close>













subsection \<open>Concrete stores and requests\<close>

definition empty_storage :: mem_storage where
  "empty_storage = \<lparr> portfolios = [], holdings = [], transactions = [], marketData = [] \<rparr>"

definition sample_storage :: mem_storage where
  "sample_storage =
     initializeSampleData ''us'' ''intl'' ''h-aapl'' ''h-msft'' ''h-asml'' ''t-aapl'' ''t-msft''
       1700000000000"

definition draw :: "string \<Rightarrow> int \<Rightarrow> draws" where
  "draw tag now =
     \<lparr> txn_uuid = ''t-'' @ tag, txn_now = now, holding_uuid = ''h-'' @ tag, holding_now = now \<rparr>"

definition order :: "string \<Rightarrow> string \<Rightarrow> rat \<Rightarrow> rat \<Rightarrow> insert_transaction" where
  "order ty symbol q p =
     \<lparr> it_portfolioId = ''us'', it_symbol = symbol, it_type = ty,
       it_quantity = Decimal q, it_price = Decimal p, it_totalAmount = Decimal (q * p),
       it_fees = None, it_currency = ''USD'', it_exchange = ''NASDAQ'',
       it_date = 1700000000000 \<rparr>"

definition position :: "string \<Rightarrow> rat \<Rightarrow> rat \<Rightarrow> insert_holding" where
  "position symbol q c =
     \<lparr> ih_portfolioId = ''us'', ih_symbol = symbol, ih_companyName = symbol,
       ih_exchange = ''NASDAQ'', ih_currency = ''USD'',
       ih_quantity = Decimal q, ih_averageCost = Decimal c \<rparr>"

definition appleHolding :: holding where
  "appleHolding =
     \<lparr> h_id = ''h-aapl'', h_portfolioId = ''us'', h_symbol = ''AAPL'',
       h_companyName = ''Apple Inc.'', h_exchange = ''NASDAQ'', h_currency = ''USD'',
       h_quantity = Decimal 50, h_averageCost = Decimal 150,
       h_currentPrice = Some (Decimal (351 / 2)), h_lastUpdated = 1700000000000 \<rparr>"

definition usPortfolio :: portfolio where
  "usPortfolio =
     \<lparr> p_id = ''us'', p_name = ''US Growth Portfolio'',
       p_description = Some ''Technology and growth stocks in US markets'',
       p_externalIdentifier = None, p_taxResidency = ''US'',
       p_financialYearEnd = ''31st Dec'', p_performanceCalculationMethod = ''Simple'',
       p_baseCurrency = ''USD'', p_createdAt = 1700000000000 \<rparr>"

section \<open>Rounding to the grid of doubles\<close>

lemma floor_log2_le:
  assumes "0 < a"
  shows "2 powi (floor_log2 a) \<le> a"
proof -
  obtain p q where pq: "quotient_of a = (p, q)" by (cases "quotient_of a")
  have q: "0 < q" using pq by (rule quotient_of_denom_pos)
  have a: "a = of_int p / of_int q" using pq by (rule quotient_of_div)
  have p: "0 < p" using assms q a by (simp add: zero_less_divide_iff)
  let ?d = "bitlen p - bitlen q"
  show ?thesis
  proof (cases "2 powi ?d \<le> a")
    case True
    then show ?thesis by (simp add: floor_log2_def pq)
  next
    case False
    have bp: "2 ^ nat (bitlen p - 1) \<le> p" using bitlen_bounds[OF p] by simp
    have bq: "q < 2 ^ nat (bitlen q)" using bitlen_bounds[OF q] by simp
    have bp1: "1 \<le> bitlen p" using p by (simp add: bitlen_alt_def)
    have "(2::rat) powi (?d - 1) = 2 powi (bitlen p - 1) / 2 powi (bitlen q)"
      by (simp add: power_int_diff)
    also have "\<dots> = 2 ^ nat (bitlen p - 1) / 2 ^ nat (bitlen q)"
      using bp1 bitlen_nonneg[of q] by (simp add: power_int_def)
    also have "\<dots> \<le> of_int p / 2 ^ nat (bitlen q)"
    proof -
      have "(2::rat) ^ nat (bitlen p - 1) \<le> of_int p"
        using bp by (metis of_int_le_iff of_int_numeral of_int_power)
      then show ?thesis by (simp add: divide_right_mono)
    qed
    also have "\<dots> \<le> of_int p / of_int q"
    proof -
      have "(of_int q :: rat) \<le> 2 ^ nat (bitlen q)"
        using bq by (metis less_imp_le of_int_le_iff of_int_numeral of_int_power)
      then show ?thesis using p q by (simp add: frac_le)
    qed
    finally have "(2::rat) powi (?d - 1) \<le> a" using a by simp
    moreover have "floor_log2 a = ?d - 1" using False by (simp add: floor_log2_def pq)
    ultimately show ?thesis by simp
  qed
qed


lemma round_half_even_ge:
  assumes "of_int k \<le> y"
  shows "k \<le> round_half_even y"
proof -
  have "k \<le> \<lfloor>y\<rfloor>" using assms by (simp add: le_floor_iff)
  then show ?thesis by (simp add: round_half_even_def Let_def)
qed

lemma round_half_even_of_int: "round_half_even (of_int k) = k"
  by (simp add: round_half_even_def)

lemma scaled_ge_one:
  assumes "0 < x" "on_grid x"
  shows "1 \<le> x / 2 powi (max (floor_log2 x - 52) (- 1074))"
proof (cases "floor_log2 x - 52 \<le> - 1074")
  case True
  obtain k :: int where k: "x = of_int k * 2 powi (- 1074)"
    using assms(2) by (auto simp: on_grid_def)
  have "0 < (of_int k :: rat)" using assms(1) k by (simp add: zero_less_mult_iff)
  then have "1 \<le> k" by simp
  then have "(1::rat) \<le> of_int k" by simp
  moreover have "x / 2 powi (- 1074) = of_int k" using k by simp
  moreover have "max (floor_log2 x - 52) (- 1074) = - 1074" using True by simp
  ultimately show ?thesis by simp
next
  case False
  have "(2::rat) powi (floor_log2 x - 52) \<le> 2 powi floor_log2 x"
    by (rule power_int_increasing) simp_all
  also have "\<dots> \<le> x" by (rule floor_log2_le[OF assms(1)])
  finally have "1 \<le> x / 2 powi (floor_log2 x - 52)"
    by (simp add: le_divide_eq)
  moreover have "max (floor_log2 x - 52) (- 1074) = floor_log2 x - 52" using False by simp
  ultimately show ?thesis by simp
qed

lemma round_to_double_pos:
  assumes "0 < x" "on_grid x"
  shows "num_lt (Num 0) (round_to_double x)"
proof -
  let ?q = "max (floor_log2 x - 52) (- 1074)"
  let ?m = "round_half_even (x / 2 powi ?q)"
  have "1 \<le> ?m" using scaled_ge_one[OF assms] by (intro round_half_even_ge) simp
  then have "0 < (of_int ?m :: rat) * 2 powi ?q" by (simp add: zero_less_mult_iff)
  then show ?thesis using assms(1)
    by (simp add: round_to_double_def Let_def inf_of_def)
qed

lemma round_to_double_grid:
  assumes "round_to_double x = Num r"
  shows "on_grid r"
proof (cases "x = 0")
  case True
  then have "r = of_int 0 * 2 powi (- 1074)" using assms by (simp add: round_to_double_def)
  then show ?thesis unfolding on_grid_def by (rule exI)
next
  case False
  define q where "q = max (floor_log2 \<bar>x\<bar> - 52) (- 1074)"
  define m where "m = round_half_even (\<bar>x\<bar> / 2 powi q)"
  define G :: rat where "G = 2 powi (- 1074)"
  have r: "r = sgn x * (of_int m * 2 powi q)"
    using assms False
    by (simp add: round_to_double_def Let_def inf_of_def q_def m_def split: if_splits)
  have "0 \<le> q + 1074" by (simp add: q_def)
  then obtain N :: nat where N: "q + 1074 = int N" using nonneg_int_cases by blast
  have "(2::rat) powi (int N + (- 1074)) = 2 powi (int N) * 2 powi (- 1074)"
    by (rule power_int_add) simp
  moreover have "int N + (- 1074) = q" using N by arith
  ultimately have "(2::rat) powi q = of_int (2 ^ N) * G"
    by (simp only: power_int_of_nat G_def of_int_power of_int_numeral)
  moreover define sg :: int where "sg = (if 0 < x then 1 else - 1)"
  then have "sgn x = of_int sg" using False
    by (simp add: sgn_if)
  ultimately have "r = of_int sg * (of_int m * (of_int (2 ^ N) * G))"
    using r by simp
  then have "r = of_int (sg * m * 2 ^ N) * G"
    by (simp only: of_int_mult mult.assoc)
  then show ?thesis unfolding on_grid_def G_def by (rule exI)
qed

lemma round_to_double_of_int:
  assumes "\<bar>n\<bar> < 2 ^ 53"
  shows "round_to_double (of_int n) = Num (of_int n)"
proof (cases "n = 0")
  case True
  then show ?thesis by (simp add: round_to_double_def)
next
  case False
  define a :: rat where "a = \<bar>of_int n\<bar>"
  define q where "q = max (floor_log2 a - 52) (- 1074)"
  have a_pos: "0 < a" using False by (simp add: a_def)
  have a_int: "a = of_int \<bar>n\<bar>" by (simp add: a_def)
  have a_lt: "a < 2 powi 53"
  proof -
    have "(of_int \<bar>n\<bar> :: rat) < of_int (2 ^ 53)" using assms by (simp only: of_int_less_iff)
    then show ?thesis by (simp add: a_int)
  qed
  have "(2::rat) powi floor_log2 a < 2 powi 53"
    using floor_log2_le[OF a_pos] a_lt by (rule le_less_trans)
  then have "floor_log2 a < 53"
    by (rule power_int_le_imp_less_exp[rotated]) simp_all
  then have "q \<le> 0" by (simp add: q_def)
  then obtain N :: nat where N: "q = - int N"
    by (metis nonpos_int_cases)
  have pq: "(2::rat) powi q = inverse (2 ^ N)"
    by (simp add: N power_int_minus)
  have "a / 2 powi q = of_int (\<bar>n\<bar> * 2 ^ N)"
    by (simp add: pq a_int divide_inverse)
  then have m: "round_half_even (a / 2 powi q) = \<bar>n\<bar> * 2 ^ N"
    by (simp only: round_half_even_of_int)
  have r: "of_int (round_half_even (a / 2 powi q)) * 2 powi q = a"
    unfolding m by (simp add: pq a_int)
  have "\<not> 1023 < floor_log2 a" using \<open>floor_log2 a < 53\<close> by simp
  moreover have "sgn (of_int n :: rat) * a = of_int n"
    by (simp add: a_def sgn_if abs_if)
  ultimately show ?thesis using False r
    unfolding round_to_double_def Let_def a_def[symmetric] q_def[symmetric]
    by (simp add: a_def[symmetric])
qed

lemma on_grid_add: "on_grid a \<Longrightarrow> on_grid b \<Longrightarrow> on_grid (a + b)"
  unfolding on_grid_def
proof (elim exE)
  fix k l :: int
  assume "a = of_int k * 2 powi (- 1074)" "b = of_int l * 2 powi (- 1074)"
  then have "a + b = of_int (k + l) * 2 powi (- 1074)" by (simp only: of_int_add distrib_right)
  then show "\<exists>k. a + b = of_int k * 2 powi (- 1074)" by (rule exI)
qed

lemma round_to_double_zero [simp]: "round_to_double 0 = Num 0"
  by (simp add: round_to_double_def)

lemma round_to_double_not_NaN: "round_to_double x \<noteq> NaN"
  by (simp add: round_to_double_def Let_def inf_of_def)

lemma parseFloat_grid: "parseFloat ns = Num r \<Longrightarrow> on_grid r"
  by (cases ns) (simp_all add: round_to_double_grid)

text \<open>A positive double written by \<^const>\<open>toString\<close> is read back positive.\<close>

lemma reparse_positive:
  assumes "num_lt (Num 0) (round_to_double x)"
  shows "num_lt (Num 0) (parseFloat (toString (round_to_double x)))"
proof (cases "round_to_double x")
  case (Num z)
  then have "0 < z" "on_grid z" using assms by (simp_all add: round_to_double_grid)
  then show ?thesis using Num by (simp add: round_to_double_pos)
qed (use assms in simp_all)

lemma add_positive:
  assumes "num_gt (parseFloat x) (Num 0)" "parseFloat y = Num q" "0 < q"
  shows "num_gt (parseFloat (toString (num_add (parseFloat x) (parseFloat y)))) (Num 0)"
proof (cases "parseFloat x")
  case (Num r)
  then have "0 < r + q" "on_grid (r + q)"
    using assms by (simp_all add: num_gt_def on_grid_add parseFloat_grid)
  then have "num_lt (Num 0) (round_to_double (r + q))" by (rule round_to_double_pos)
  then show ?thesis using Num assms(2) by (simp add: num_gt_def reparse_positive)
qed (use assms in \<open>simp_all add: num_gt_def\<close>)

lemma sub_positive:
  assumes "num_gt (parseFloat x) (Num 0)" "parseFloat y = Num q"
    and "\<not> num_le (num_sub (parseFloat x) (parseFloat y)) (Num 0)"
  shows "num_gt (parseFloat (toString (num_sub (parseFloat x) (parseFloat y)))) (Num 0)"
proof (cases "parseFloat x")
  case (Num r)
  have "num_lt (Num 0) (round_to_double (r - q))"
    using assms(3) Num assms(2) round_to_double_not_NaN[of "r - q"]
    by (cases "round_to_double (r - q)") (simp_all add: num_sub_def)
  then show ?thesis using Num assms(2) by (simp add: num_gt_def num_sub_def reparse_positive)
qed (use assms in \<open>simp_all add: num_gt_def num_sub_def\<close>)





section \<open>Association lists as insertion-ordered maps\<close>

lemma head_of_filter: "(case filter P xs of [] \<Rightarrow> None | x # _ \<Rightarrow> Some x) = find P xs"
  by (induction xs) simp_all

lemma update_fresh_appends: "k \<notin> fst ` set al \<Longrightarrow> AList.update k v al = al @ [(k, v)]"
  by (induction al) auto

lemma keyed_lookup:
  assumes "distinct (map fst al)" "list_all (\<lambda>(k, v). f v = k) al" "v \<in> snd ` set al"
  shows "map_of al (f v) = Some v"
proof -
  from assms(3) obtain k where "(k, v) \<in> set al" by force
  moreover from this assms(2) have "f v = k" by (auto simp: list_all_iff)
  ultimately show ?thesis using assms(1) by simp
qed

text \<open>
  Replacing the first match under its own key, by a value that still matches, leaves it
  the first match.
\<close>

lemma find_update_keyed:
  assumes "distinct (map fst al)" "list_all (\<lambda>(k, v). f v = k) al"
    and "find P (map snd al) = Some h" "P h'"
  shows "find P (map snd (AList.update (f h) h' al)) = Some h'"
  using assms
proof (induction al)
  case Nil
  then show ?case by simp
next
  case (Cons e al)
  obtain k v where e: "e = (k, v)" by (cases e)
  show ?case
  proof (cases "P v")
    case True
    then have "h = v" using Cons.prems(3) e by simp
    moreover have "f v = k" using Cons.prems(2) e by simp
    ultimately show ?thesis using e Cons.prems(4) by simp
  next
    case False
    then have fnd: "find P (map snd al) = Some h" using Cons.prems(3) e by simp
    then have "h \<in> snd ` set al" by (auto simp: find_Some_iff)
    then have "map_of al (f h) = Some h"
      using Cons.prems(1,2) by (intro keyed_lookup) simp_all
    then have "f h \<in> fst ` set al" by (meson domI domIff map_of_eq_None_iff)
    then have "k \<noteq> f h" using Cons.prems(1) e by auto
    then show ?thesis using e False Cons.IH fnd Cons.prems by simp
  qed
qed

lemma find_update_fresh:
  assumes "find P (map snd al) = None" "P v"
  shows "find P (map snd (AList.update k v al)) = Some v"
  using assms by (induction al) (auto split: if_splits)

lemma list_all_update:
  "list_all Q al \<Longrightarrow> Q (k, v) \<Longrightarrow> list_all Q (AList.update k v al)"
  by (induction al) auto

lemma list_all_delete: "list_all Q al \<Longrightarrow> list_all Q (AList.delete k al)"
  by (induction al) auto

lemma list_all_values_update:
  "list_all P (map snd al) \<Longrightarrow> P v \<Longrightarrow> list_all P (map snd (AList.update k v al))"
  by (induction al) auto

lemma list_all_values_delete:
  "list_all P (map snd al) \<Longrightarrow> list_all P (map snd (AList.delete k al))"
  by (induction al) auto

lemma set_update_subset: "set (AList.update k v al) \<subseteq> insert (k, v) (set al)"
  by (induction al) auto

lemma set_delete_subset: "set (AList.delete k al) \<subseteq> set al"
  by (induction al) auto

lemma pairs_update_fresh:
  assumes "distinct (map g (map snd al))" "g v \<notin> g ` snd ` set al"
  shows "distinct (map g (map snd (AList.update k v al)))"
  using assms
proof (induction al)
  case Nil
  then show ?case by simp
next
  case (Cons e al)
  have "g (snd e) \<notin> g ` snd ` set (AList.update k v al)"
    using Cons.prems set_update_subset[of k v al] by (auto simp: image_iff)
  then show ?case using Cons by (auto simp: image_iff)
qed

lemma pairs_update_same:
  assumes "distinct (map fst al)" "map_of al k = Some h" "g h' = g h"
  shows "map g (map snd (AList.update k h' al)) = map g (map snd al)"
  using assms by (induction al) (auto simp: image_iff)

lemma pairs_delete:
  assumes "distinct (map g (map snd al))"
  shows "distinct (map g (map snd (AList.delete k al)))"
  using assms
proof (induction al)
  case Nil
  then show ?case by simp
next
  case (Cons e al)
  have "g (snd e) \<notin> g ` snd ` set (AList.delete k al)"
    using Cons.prems set_delete_subset[of k al] by (auto simp: image_iff)
  then show ?case using Cons by (auto simp: image_iff)
qed


section \<open>What one transaction does to the store\<close>

lemma first_holding_find:
  "first_holding pid sy s =
     find (\<lambda>h. h_portfolioId h = pid \<and> h_symbol h = sy) (map snd (holdings s))"
  unfolding first_holding_def matching_holdings_def map_values_def by (rule head_of_filter)

lemma first_holding_matches:
  assumes "first_holding pid sy s = Some h"
  shows "h_portfolioId h = pid \<and> h_symbol h = sy \<and> h \<in> set (map_values (holdings s))"
  using assms unfolding first_holding_find map_values_def by (auto simp: find_Some_iff)

lemma first_holding_lookup:
  assumes "holdings_wf s" "first_holding pid sy s = Some h"
  shows "map_of (holdings s) (h_id h) = Some h"
proof -
  have "h \<in> snd ` set (holdings s)"
    using assms(2) unfolding first_holding_find by (auto simp: find_Some_iff)
  then show ?thesis using assms(1) unfolding holdings_wf_def by (intro keyed_lookup) simp_all
qed

lemma first_holding_transactions [simp]:
  "first_holding pid sy (s\<lparr>transactions := ts\<rparr>) = first_holding pid sy s"
  by (simp add: first_holding_def matching_holdings_def)

lemma buy_fresh:
  assumes "it_type it = ''buy''"
    and "first_holding (it_portfolioId it) (it_symbol it) s = None"
  shows "createTransaction d it s =
           (newTransaction d it,
            s\<lparr>transactions := AList.update (txn_uuid d) (newTransaction d it) (transactions s),
               holdings := AList.update (holding_uuid d) (createdHolding d it) (holdings s)\<rparr>)"
  using assms
  by (simp add: createTransaction_def updateHoldingFromTransaction_def newTransaction_def Let_def
      createHolding_def createdHolding_def)

lemma buy_existing:
  assumes "holdings_wf s"
    and "it_type it = ''buy''"
    and "first_holding (it_portfolioId it) (it_symbol it) s = Some h"
  shows "createTransaction d it s =
           (newTransaction d it,
            s\<lparr>transactions := AList.update (txn_uuid d) (newTransaction d it) (transactions s),
               holdings := AList.update (h_id h)
                 (h\<lparr>h_quantity :=
                      fst (spec_buy_step (h_quantity h, h_averageCost h) (it_quantity it, it_price it)),
                    h_averageCost :=
                      snd (spec_buy_step (h_quantity h, h_averageCost h) (it_quantity it, it_price it)),
                    h_lastUpdated := holding_now d\<rparr>) (holdings s)\<rparr>)"
  using assms first_holding_lookup[OF assms(1,3)]
  by (simp add: createTransaction_def updateHoldingFromTransaction_def newTransaction_def Let_def
      updateHolding_def spread_update_def holdingUpdate_def spec_buy_step_def)

lemma sell_absent:
  assumes "it_type it = ''sell''"
    and "first_holding (it_portfolioId it) (it_symbol it) s = None"
  shows "createTransaction d it s =
           (newTransaction d it,
            s\<lparr>transactions := AList.update (txn_uuid d) (newTransaction d it) (transactions s)\<rparr>)"
  using assms
  by (simp add: createTransaction_def updateHoldingFromTransaction_def newTransaction_def Let_def)

lemma sell_closes:
  assumes "it_type it = ''sell''"
    and "first_holding (it_portfolioId it) (it_symbol it) s = Some h"
    and "num_le (num_sub (parseFloat (h_quantity h)) (parseFloat (it_quantity it))) (Num 0)"
  shows "createTransaction d it s =
           (newTransaction d it,
            s\<lparr>transactions := AList.update (txn_uuid d) (newTransaction d it) (transactions s),
               holdings := AList.delete (h_id h) (holdings s)\<rparr>)"
  using assms
  by (simp add: createTransaction_def updateHoldingFromTransaction_def newTransaction_def Let_def
      deleteHolding_def)

lemma sell_reduces:
  assumes "holdings_wf s"
    and "it_type it = ''sell''"
    and "first_holding (it_portfolioId it) (it_symbol it) s = Some h"
    and "\<not> num_le (num_sub (parseFloat (h_quantity h)) (parseFloat (it_quantity it))) (Num 0)"
  shows "createTransaction d it s =
           (newTransaction d it,
            s\<lparr>transactions := AList.update (txn_uuid d) (newTransaction d it) (transactions s),
               holdings := AList.update (h_id h)
                 (h\<lparr>h_quantity :=
                      toString (num_sub (parseFloat (h_quantity h)) (parseFloat (it_quantity it))),
                    h_lastUpdated := holding_now d\<rparr>) (holdings s)\<rparr>)"
  using assms first_holding_lookup[OF assms(1,3)]
  by (simp add: createTransaction_def updateHoldingFromTransaction_def newTransaction_def Let_def
      updateHolding_def spread_update_def holdingUpdate_def)

lemma other_type:
  assumes "it_type it \<noteq> ''buy''" "it_type it \<noteq> ''sell''"
  shows "createTransaction d it s =
           (newTransaction d it,
            s\<lparr>transactions := AList.update (txn_uuid d) (newTransaction d it) (transactions s)\<rparr>)"
  using assms
  by (simp add: createTransaction_def updateHoldingFromTransaction_def newTransaction_def Let_def)

text \<open>The four ways a transaction changes the holdings.\<close>

lemma holdings_after_createTransaction [consumes 1, case_names same created updated deleted]:
  assumes "holdings_wf s"
  obtains
    (same) "holdings (snd (createTransaction d it s)) = holdings s"
  | (created) "first_holding (it_portfolioId it) (it_symbol it) s = None"
      "holdings (snd (createTransaction d it s)) =
         AList.update (holding_uuid d) (createdHolding d it) (holdings s)"
  | (updated) h q c where "first_holding (it_portfolioId it) (it_symbol it) s = Some h"
      "holdings (snd (createTransaction d it s)) =
         AList.update (h_id h)
           (h\<lparr>h_quantity := q, h_averageCost := c, h_lastUpdated := holding_now d\<rparr>) (holdings s)"
  | (deleted) h where "first_holding (it_portfolioId it) (it_symbol it) s = Some h"
      "holdings (snd (createTransaction d it s)) = AList.delete (h_id h) (holdings s)"
proof (cases "it_type it = ''buy''")
  case True
  show ?thesis
  proof (cases "first_holding (it_portfolioId it) (it_symbol it) s")
    case None
    then show ?thesis using created buy_fresh[OF True None, of d] by simp
  next
    case (Some h)
    show ?thesis using updated[OF Some] buy_existing[OF assms True Some, of d] by simp
  qed
next
  case notbuy: False
  show ?thesis
  proof (cases "it_type it = ''sell''")
    case True
    show ?thesis
    proof (cases "first_holding (it_portfolioId it) (it_symbol it) s")
      case None
      then show ?thesis using same sell_absent[OF True None, of d] by simp
    next
      case (Some h)
      show ?thesis
      proof (cases "num_le (num_sub (parseFloat (h_quantity h)) (parseFloat (it_quantity it))) (Num 0)")
        case True
        then show ?thesis
          using deleted[OF Some] sell_closes[OF \<open>it_type it = ''sell''\<close> Some True, of d] by simp
      next
        case False
        have "h\<lparr>h_quantity := q, h_lastUpdated := n\<rparr> =
              h\<lparr>h_quantity := q, h_averageCost := h_averageCost h, h_lastUpdated := n\<rparr>" for q n
          by simp
        then show ?thesis
          using updated[OF Some,
              where q = "toString (num_sub (parseFloat (h_quantity h)) (parseFloat (it_quantity it)))"
              and c = "h_averageCost h"]
            sell_reduces[OF assms \<open>it_type it = ''sell''\<close> Some False, of d]
          by simp
      qed
    qed
  next
    case False
    then show ?thesis using same other_type[OF notbuy False, of d s] by simp
  qed
qed

lemma holdings_wf_update:
  assumes "holdings_wf s" "h_id v = k"
  shows "holdings_wf (s\<lparr>holdings := AList.update k v (holdings s)\<rparr>)"
  using assms by (simp add: holdings_wf_def distinct_update list_all_update)

lemma holdings_wf_updateHolding:
  assumes "holdings_wf s"
  shows "holdings_wf (snd (updateHolding ident u now s))"
proof (cases "map_of (holdings s) ident")
  case None
  then show ?thesis using assms by (simp add: updateHolding_def)
next
  case (Some h)
  then have "(ident, h) \<in> set (holdings s)" by (rule map_of_SomeD)
  then have "h_id h = ident" using assms by (auto simp: holdings_wf_def list_all_iff)
  then show ?thesis
    using Some holdings_wf_update[OF assms, of _ ident]
    by (simp add: updateHolding_def Let_def spread_update_def)
qed

lemma holdings_wf_deleteHolding:
  assumes "holdings_wf s"
  shows "holdings_wf (snd (deleteHolding ident s))"
  using assms by (simp add: deleteHolding_def holdings_wf_def distinct_delete list_all_delete)

lemma holdings_wf_createHolding:
  assumes "holdings_wf s"
  shows "holdings_wf (snd (createHolding uuid now ih s))"
  using holdings_wf_update[OF assms, of _ uuid] by (simp add: createHolding_def Let_def)

lemma holdings_wf_createTransaction:
  assumes "holdings_wf s"
  shows "holdings_wf (snd (createTransaction d it s))"
  using assms
proof (cases rule: holdings_after_createTransaction[of s d it])
  case same
  then show ?thesis using assms by (simp add: holdings_wf_def)
next
  case created
  then show ?thesis using assms
    by (simp add: holdings_wf_def distinct_update list_all_update createdHolding_def)
next
  case (updated h q c)
  then show ?thesis using assms
    by (simp add: holdings_wf_def distinct_update list_all_update)
next
  case (deleted h)
  then show ?thesis using assms
    by (simp add: holdings_wf_def distinct_delete list_all_delete)
qed


lemma holdings_wf_initializeSampleData:
  assumes "distinct [appleId, msftId, asmlId]"
  shows "holdings_wf (initializeSampleData usId intlId appleId msftId asmlId appleBuyId msftBuyId now)"
  using assms by (auto simp: holdings_wf_def initializeSampleData_def Let_def)

section \<open>Evaluating concrete runs\<close>

text \<open>Doubles that are integers, halves or quarters below \<open>2 ^ 53\<close> are rounded to themselves.\<close>

lemma round_to_double_dyadic:
  assumes "\<bar>n\<bar> < 2 ^ 53" "k \<le> 53"
  shows "round_to_double (of_int n / 2 ^ k) = Num (of_int n / 2 ^ k)"
proof (cases "n = 0")
  case True
  then show ?thesis by simp
next
  case False
  define a :: rat where "a = \<bar>of_int n / 2 ^ k\<bar>"
  define q where "q = max (floor_log2 a - 52) (- 1074)"
  have a_eq: "a = of_int \<bar>n\<bar> / 2 ^ k" by (simp add: a_def)
  have a_pos: "0 < a" using False by (simp add: a_def)
  have "(of_int \<bar>n\<bar> :: rat) < of_int (2 ^ 53)" using assms(1) by (simp only: of_int_less_iff)
  then have "a < 2 ^ 53 / 2 ^ k" by (simp add: a_eq divide_strict_right_mono)
  also have "\<dots> = 2 powi (53 - int k)"
    using assms(2) by (simp add: power_int_diff)
  finally have "a < 2 powi (53 - int k)" .
  with floor_log2_le[OF a_pos] have "(2::rat) powi floor_log2 a < 2 powi (53 - int k)"
    by (rule le_less_trans)
  then have e: "floor_log2 a < 53 - int k"
    using assms(2) by (intro power_int_le_imp_less_exp[of "2::rat"]) simp_all
  then have "q \<le> - int k" using assms(2) by (simp add: q_def)
  then obtain j :: nat where j: "q = - int (k + j)"
    by (metis add.inverse_inverse int_ops(5) neg_le_iff_le zle_iff_zadd)
  have pq: "(2::rat) powi q = inverse (2 ^ (k + j))"
    by (simp add: j power_int_minus del: of_nat_add)
  have "a / 2 powi q = of_int (\<bar>n\<bar> * 2 ^ j)"
    by (simp add: pq a_eq divide_inverse power_add)
  then have m: "round_half_even (a / 2 powi q) = \<bar>n\<bar> * 2 ^ j"
    by (simp only: round_half_even_of_int)
  have r: "of_int (round_half_even (a / 2 powi q)) * 2 powi q = a"
    unfolding m by (simp add: pq a_eq power_add field_simps)
  have "\<not> 1023 < floor_log2 a" using e by simp
  moreover have "sgn (of_int n / 2 ^ k :: rat) * a = of_int n / 2 ^ k"
    by (simp add: a_def sgn_if abs_if zero_less_divide_iff divide_less_0_iff)
  ultimately show ?thesis using False r
    unfolding round_to_double_def Let_def a_def[symmetric] q_def[symmetric]
    by (simp add: a_def[symmetric])
qed

lemma round_numeral:
  "numeral m < (2 :: int) ^ 53 \<Longrightarrow> round_to_double (numeral m) = Num (numeral m)"
  using round_to_double_of_int[of "numeral m"] by simp

lemma round_neg_numeral:
  "numeral m < (2 :: int) ^ 53 \<Longrightarrow> round_to_double (- numeral m) = Num (- numeral m)"
  using round_to_double_of_int[of "- numeral m"] by simp

lemma round_one: "round_to_double 1 = Num 1"
  using round_to_double_of_int[of 1] by simp

lemma round_neg_one: "round_to_double (- 1) = Num (- 1)"
  using round_to_double_of_int[of "- 1"] by simp

lemma round_halves:
  "numeral m < (2 :: int) ^ 53 \<Longrightarrow> round_to_double (numeral m / 2) = Num (numeral m / 2)"
  "numeral m < (2 :: int) ^ 53 \<Longrightarrow> round_to_double (- (numeral m / 2)) = Num (- (numeral m / 2))"
  using round_to_double_dyadic[of "numeral m" 1] round_to_double_dyadic[of "- numeral m" 1]
  by simp_all

lemma round_quarters:
  "numeral m < (2 :: int) ^ 53 \<Longrightarrow> round_to_double (numeral m / 4) = Num (numeral m / 4)"
  "numeral m < (2 :: int) ^ 53 \<Longrightarrow> round_to_double (- (numeral m / 4)) = Num (- (numeral m / 4))"
  using round_to_double_dyadic[of "numeral m" 2] round_to_double_dyadic[of "- numeral m" 2]
  by simp_all

lemmas exact_rounding =
  round_numeral round_neg_numeral round_one round_neg_one round_halves round_quarters

lemmas run_defs =
  createTransaction_def updateHoldingFromTransaction_def newTransaction_def createHolding_def
  updateHolding_def deleteHolding_def spread_update_def holdingUpdate_def first_holding_def
  matching_holdings_def map_values_def getHoldings_def getHoldingsWithMetrics_def
  holdingMetrics_def getPortfolioWithMetrics_def accumulate_def num_sub_def num_gt_def
  inf_of_def Let_def holdings_wf_def all_quantities_positive_def one_holding_per_pair_def
  is_buy_for_def all_buys_for_def quantities_and_prices_def spec_buy_step_def
  holding_after_buy_def spec_currentPrice_def spec_currentValue_def spec_costBasis_def
  spec_totalGain_def guarded_percent_def float_sum_def dividends_def dividend_total_def

lemmas example_defs =
  empty_storage_def sample_storage_def initializeSampleData_def draw_def order_def
  position_def appleHolding_def usPortfolio_def createdHolding_def

section \<open>The relative error of rounding\<close>









subsection \<open>Composing relative errors\<close>














subsection \<open>The error of one buy, and of a sequence of buys\<close>










subsection \<open>Overflow\<close>




section \<open>The holding projection\<close>

lemma first_holding_after_buy:
  assumes "holdings_wf s" "it_type it = ''buy''"
  shows "first_holding (it_portfolioId it) (it_symbol it) (snd (createTransaction d it s)) =
           Some (holding_after_buy d it (first_holding (it_portfolioId it) (it_symbol it) s))"
proof (cases "first_holding (it_portfolioId it) (it_symbol it) s")
  case None
  have "find (\<lambda>h. h_portfolioId h = it_portfolioId it \<and> h_symbol h = it_symbol it)
          (map snd (AList.update (holding_uuid d) (createdHolding d it) (holdings s))) =
        Some (createdHolding d it)"
    using None by (intro find_update_fresh) (simp_all add: first_holding_find createdHolding_def)
  then show ?thesis
    using None buy_fresh[OF assms(2) None, of d]
    by (simp add: first_holding_find holding_after_buy_def)
next
  case (Some h)
  let ?h = "holding_after_buy d it (Some h)"
  have m: "h_portfolioId h = it_portfolioId it \<and> h_symbol h = it_symbol it"
    using first_holding_matches[OF Some] by simp
  have "find (\<lambda>h. h_portfolioId h = it_portfolioId it \<and> h_symbol h = it_symbol it)
          (map snd (AList.update (h_id h) ?h (holdings s))) = Some ?h"
    using assms(1) Some m
    by (intro find_update_keyed)
       (simp_all add: holdings_wf_def first_holding_find holding_after_buy_def)
  then show ?thesis
    using Some buy_existing[OF assms Some, of d]
    by (simp add: first_holding_find holding_after_buy_def)
qed








text \<open>
  C2 (amended). \<^verbatim>\<open>createTransaction\<close> validates nothing, so the invariant needs a
  well-formed request: if every holding has a quantity greater than 0 and the
  transaction's quantity parses to a positive finite number, then after
  \<^verbatim>\<open>createTransaction\<close> every holding has a quantity greater than 0 (a sell that would
  leave a quantity \<open>\<le> 0\<close> deletes the holding).
\<close>

theorem positive_quantities_preserved:
  assumes "all_quantities_positive s"
    and "parseFloat (it_quantity it) = Num q" "0 < q"
  shows "all_quantities_positive (snd (createTransaction d it s))"
proof -
  let ?pid = "it_portfolioId it" and ?sy = "it_symbol it"
  let ?P = "\<lambda>h. num_gt (parseFloat (h_quantity h)) (Num 0)"
  have al: "list_all ?P (map snd (holdings s))"
    using assms(1) by (simp add: all_quantities_positive_def map_values_def)
  have upd: "all_quantities_positive (s'\<lparr>holdings := AList.update k v (holdings s)\<rparr>)"
    if "?P v" for s' k v
    using al that by (simp add: all_quantities_positive_def map_values_def list_all_values_update)
  have del: "all_quantities_positive (s'\<lparr>holdings := AList.delete k (holdings s)\<rparr>)" for s' k
    using al by (simp add: all_quantities_positive_def map_values_def list_all_values_delete)
  have tr: "all_quantities_positive (s\<lparr>transactions := ts\<rparr>)" for ts
    using assms(1) by (simp add: all_quantities_positive_def)
  have qpos: "?P (createdHolding d it)"
    using assms(2,3) by (simp add: createdHolding_def num_gt_def)
  show ?thesis
  proof (cases "first_holding ?pid ?sy s")
    case None
    then show ?thesis
      using tr upd qpos
      by (simp add: createTransaction_def updateHoldingFromTransaction_def newTransaction_def Let_def
          createHolding_def createdHolding_def)
  next
    case (Some h)
    have "h \<in> set (map snd (holdings s))"
      using first_holding_matches[OF Some] by (simp add: map_values_def)
    then have hpos: "?P h" using al by (auto simp: list_all_iff)
    note a = add_positive[OF hpos assms(2,3)]
    note b = sub_positive[OF hpos assms(2)]
    show ?thesis
    proof (cases "map_of (holdings s) (h_id h)")
      case None
      then show ?thesis using Some tr del
        by (simp add: createTransaction_def updateHoldingFromTransaction_def newTransaction_def
            Let_def updateHolding_def deleteHolding_def)
    next
      case (Some hx)
      show ?thesis using \<open>first_holding ?pid ?sy s = Some h\<close> Some tr del a b
        by (simp add: createTransaction_def updateHoldingFromTransaction_def newTransaction_def
            Let_def updateHolding_def spread_update_def holdingUpdate_def deleteHolding_def upd)
    qed
  qed
qed

text \<open>Selling 20 of the 50 AAPL of the sample store.\<close>

theorem positive_quantities_preserved_witness:
  "all_quantities_positive sample_storage
   \<and> parseFloat (it_quantity (order ''sell'' ''AAPL'' 20 170)) = Num 20
   \<and> (0::rat) < 20
   \<and> all_quantities_positive
       (snd (createTransaction (draw ''1'' 1) (order ''sell'' ''AAPL'' 20 170) sample_storage))"
proof -
  have h1: "all_quantities_positive sample_storage" by (simp add: run_defs example_defs exact_rounding)
  have h2: "parseFloat (it_quantity (order ''sell'' ''AAPL'' 20 170)) = Num 20" by (simp add: run_defs example_defs exact_rounding)
  have h3: "(0::rat) < 20" by simp
  show ?thesis
    using h1 h2 h3 positive_quantities_preserved[OF h1 h2 h3, of "draw ''1'' 1"] by blast
qed

text \<open>
  C2 as stated fails: a buy of quantity 0 for a symbol the sample store does not hold
  leaves a holding of quantity 0 in the store.
\<close>

theorem zero_quantity_holding_counterexample:
  "all_quantities_positive sample_storage
   \<and> \<not> all_quantities_positive
         (snd (createTransaction (draw ''1'' 1) (order ''buy'' ''NVDA'' 0 120) sample_storage))
   \<and> map_option h_quantity
       (first_holding ''us'' ''NVDA''
          (snd (createTransaction (draw ''1'' 1) (order ''buy'' ''NVDA'' 0 120) sample_storage)))
     = Some (Decimal 0)"
  by (simp add: run_defs example_defs exact_rounding)

text \<open>
  C3 (amended). A buy whose quantity or price is not positive is not rejected and there
  is no InvalidTransaction failure: \<^verbatim>\<open>createTransaction\<close> returns the new transaction,
  records it in the ledger under its id, and creates or updates the holding of the pair
  as for any other buy.
\<close>

theorem nonpositive_buy_is_applied:
  assumes "holdings_wf s"
    and "it_type it = ''buy''"
    and "num_le (parseFloat (it_quantity it)) (Num 0) \<or> num_le (parseFloat (it_price it)) (Num 0)"
  shows "fst (createTransaction d it s) = newTransaction d it
       \<and> map_of (transactions (snd (createTransaction d it s))) (txn_uuid d)
           = Some (newTransaction d it)
       \<and> first_holding (it_portfolioId it) (it_symbol it) (snd (createTransaction d it s))
           = Some (holding_after_buy d it (first_holding (it_portfolioId it) (it_symbol it) s))"
proof -
  have "fst (createTransaction d it s) = newTransaction d it"
    by (simp add: createTransaction_def Let_def)
  moreover have "map_of (transactions (snd (createTransaction d it s))) (txn_uuid d)
           = Some (newTransaction d it)"
    using assms(1)
  proof (cases "first_holding (it_portfolioId it) (it_symbol it) s")
    case None
    then show ?thesis using buy_fresh[OF assms(2) None, of d] by (simp add: update_conv')
  next
    case (Some h)
    then show ?thesis using buy_existing[OF assms(1,2) Some, of d] by (simp add: update_conv')
  qed
  ultimately show ?thesis using first_holding_after_buy[OF assms(1,2), of d] by simp
qed

text \<open>A buy of quantity 0 at price 120 on the sample store.\<close>

theorem nonpositive_buy_is_applied_witness:
  "holdings_wf sample_storage
   \<and> it_type (order ''buy'' ''NVDA'' 0 120) = ''buy''
   \<and> (num_le (parseFloat (it_quantity (order ''buy'' ''NVDA'' 0 120))) (Num 0)
        \<or> num_le (parseFloat (it_price (order ''buy'' ''NVDA'' 0 120))) (Num 0))
   \<and> fst (createTransaction (draw ''1'' 1) (order ''buy'' ''NVDA'' 0 120) sample_storage)
       = newTransaction (draw ''1'' 1) (order ''buy'' ''NVDA'' 0 120)
   \<and> map_of (transactions (snd (createTransaction (draw ''1'' 1) (order ''buy'' ''NVDA'' 0 120)
                                  sample_storage)))
        (txn_uuid (draw ''1'' 1))
       = Some (newTransaction (draw ''1'' 1) (order ''buy'' ''NVDA'' 0 120))
   \<and> first_holding (it_portfolioId (order ''buy'' ''NVDA'' 0 120))
        (it_symbol (order ''buy'' ''NVDA'' 0 120))
        (snd (createTransaction (draw ''1'' 1) (order ''buy'' ''NVDA'' 0 120) sample_storage))
       = Some (holding_after_buy (draw ''1'' 1) (order ''buy'' ''NVDA'' 0 120)
                 (first_holding (it_portfolioId (order ''buy'' ''NVDA'' 0 120))
                    (it_symbol (order ''buy'' ''NVDA'' 0 120)) sample_storage))"
proof -
  have h1: "holdings_wf sample_storage" by (simp add: run_defs example_defs exact_rounding)
  have h2: "it_type (order ''buy'' ''NVDA'' 0 120) = ''buy''" by (simp add: run_defs example_defs exact_rounding)
  have h3: "num_le (parseFloat (it_quantity (order ''buy'' ''NVDA'' 0 120))) (Num 0)
        \<or> num_le (parseFloat (it_price (order ''buy'' ''NVDA'' 0 120))) (Num 0)" by (simp add: run_defs example_defs exact_rounding)
  show ?thesis
    using h1 h2 h3 nonpositive_buy_is_applied[OF h1 h2 h3, of "draw ''1'' 1"] by blast
qed

text \<open>
  C3 as stated fails: a buy of quantity -5 on the empty store returns normally, and the
  store afterwards holds the transaction and a holding of quantity -5.
\<close>

theorem negative_buy_mutates_counterexample:
  "num_le (parseFloat (it_quantity (order ''buy'' ''AAPL'' (- 5) 10))) (Num 0)
   \<and> createTransaction (draw ''1'' 1) (order ''buy'' ''AAPL'' (- 5) 10) empty_storage
     = (newTransaction (draw ''1'' 1) (order ''buy'' ''AAPL'' (- 5) 10),
        \<lparr> portfolios = [],
          holdings = [(''h-1'', createdHolding (draw ''1'' 1) (order ''buy'' ''AAPL'' (- 5) 10))],
          transactions = [(''t-1'', newTransaction (draw ''1'' 1) (order ''buy'' ''AAPL'' (- 5) 10))],
          marketData = [] \<rparr>)
   \<and> h_quantity (createdHolding (draw ''1'' 1) (order ''buy'' ''AAPL'' (- 5) 10)) = Decimal (- 5)
   \<and> snd (createTransaction (draw ''1'' 1) (order ''buy'' ''AAPL'' (- 5) 10) empty_storage)
       \<noteq> empty_storage"
  by (simp add: run_defs example_defs exact_rounding)

lemma one_holding_per_pair_createTransaction:
  assumes "holdings_wf s" "one_holding_per_pair s"
  shows "one_holding_per_pair (snd (createTransaction d it s))"
proof -
  let ?g = "\<lambda>h. (h_portfolioId h, h_symbol h)"
  have dist: "distinct (map ?g (map snd (holdings s)))"
    using assms(2) by (simp add: one_holding_per_pair_def map_values_def del: map_map)
  from assms(1) show ?thesis
  proof (cases rule: holdings_after_createTransaction[of s d it])
    case same
    then show ?thesis using assms(2) by (simp add: one_holding_per_pair_def)
  next
    case created
    have "?g (createdHolding d it) \<notin> ?g ` snd ` set (holdings s)"
      using created(1) unfolding first_holding_find
      by (auto simp: find_None_iff createdHolding_def)
    then show ?thesis using created(2) dist
      by (simp add: one_holding_per_pair_def map_values_def pairs_update_fresh del: map_map)
  next
    case (updated h q c)
    have "map_of (holdings s) (h_id h) = Some h"
      by (rule first_holding_lookup[OF assms(1) updated(1)])
    then show ?thesis using updated(2) dist assms(1)
      by (simp add: one_holding_per_pair_def map_values_def pairs_update_same holdings_wf_def
          del: map_map)
  next
    case (deleted h)
    then show ?thesis using dist
      by (simp add: one_holding_per_pair_def map_values_def pairs_delete del: map_map)
  qed
qed

lemma one_holding_per_pair_createHolding:
  assumes "one_holding_per_pair s"
    and "first_holding (ih_portfolioId ih) (ih_symbol ih) s = None"
  shows "one_holding_per_pair (snd (createHolding uuid now ih s))"
proof -
  let ?g = "\<lambda>h. (h_portfolioId h, h_symbol h)"
  let ?h = "fst (createHolding uuid now ih s)"
  have dist: "distinct (map ?g (map snd (holdings s)))"
    using assms(1) by (simp add: one_holding_per_pair_def map_values_def del: map_map)
  have "?g ?h \<notin> ?g ` snd ` set (holdings s)"
    using assms(2) unfolding first_holding_find
    by (auto simp: find_None_iff createHolding_def Let_def)
  then have "distinct (map ?g (map snd (AList.update uuid ?h (holdings s))))"
    using dist by (rule pairs_update_fresh[rotated])
  then show ?thesis
    by (simp add: one_holding_per_pair_def map_values_def createHolding_def Let_def del: map_map)
qed

text \<open>
  C4 (amended). \<^verbatim>\<open>createHolding\<close> stores whatever it is given, so uniqueness needs
  that it is only called for a pair without a holding: from a store with at most one
  holding per (portfolioId, symbol), after any sequence of \<^verbatim>\<open>createTransaction\<close> and
  \<^verbatim>\<open>createHolding\<close> in which every \<^verbatim>\<open>createHolding\<close> is for a pair that has no holding
  at that moment, at most one holding exists per pair.
\<close>

theorem one_holding_per_pair_run_all:
  assumes "holdings_wf s" "one_holding_per_pair s" "creates_only_new_pairs ops s"
  shows "one_holding_per_pair (run_all ops s)"
  using assms
proof (induction ops arbitrary: s)
  case Nil
  then show ?case by simp
next
  case (Cons x ops)
  have "holdings_wf (run x s) \<and> one_holding_per_pair (run x s) \<and> creates_only_new_pairs ops (run x s)"
  proof (cases x)
    case (CreateTransaction d it)
    then show ?thesis
      using Cons.prems
      by (simp add: holdings_wf_createTransaction one_holding_per_pair_createTransaction)
  next
    case (CreateHolding uuid now ih)
    then show ?thesis
      using Cons.prems
      by (simp add: holdings_wf_createHolding one_holding_per_pair_createHolding)
  qed
  then show ?case using Cons.IH by simp
qed

text \<open>
  On the sample store: a new NVDA holding, a buy that adds to it, and a sell that closes
  the AAPL holding.
\<close>

theorem one_holding_per_pair_run_all_witness:
  "holdings_wf sample_storage
   \<and> one_holding_per_pair sample_storage
   \<and> creates_only_new_pairs
       [CreateHolding ''h-nvda'' 1 (position ''NVDA'' 5 100),
        CreateTransaction (draw ''1'' 2) (order ''buy'' ''NVDA'' 5 120),
        CreateTransaction (draw ''2'' 3) (order ''sell'' ''AAPL'' 50 170)] sample_storage
   \<and> one_holding_per_pair
       (run_all
          [CreateHolding ''h-nvda'' 1 (position ''NVDA'' 5 100),
           CreateTransaction (draw ''1'' 2) (order ''buy'' ''NVDA'' 5 120),
           CreateTransaction (draw ''2'' 3) (order ''sell'' ''AAPL'' 50 170)] sample_storage)"
proof -
  have h1: "holdings_wf sample_storage" by (simp add: run_defs example_defs exact_rounding)
  have h2: "one_holding_per_pair sample_storage" by (simp add: run_defs example_defs exact_rounding)
  have h3: "creates_only_new_pairs
       [CreateHolding ''h-nvda'' 1 (position ''NVDA'' 5 100),
        CreateTransaction (draw ''1'' 2) (order ''buy'' ''NVDA'' 5 120),
        CreateTransaction (draw ''2'' 3) (order ''sell'' ''AAPL'' 50 170)] sample_storage"
    by (simp add: run_defs example_defs exact_rounding)
  show ?thesis using h1 h2 h3 one_holding_per_pair_run_all[OF h1 h2 h3] by blast
qed

text \<open>
  C4 as stated fails: two \<^verbatim>\<open>createHolding\<close> calls for the same portfolio and symbol leave
  two holdings of that pair.
\<close>

theorem duplicate_holding_counterexample:
  "one_holding_per_pair empty_storage
   \<and> \<not> one_holding_per_pair
         (run_all [CreateHolding ''h-1'' 1 (position ''AAPL'' 5 100),
                   CreateHolding ''h-2'' 2 (position ''AAPL'' 7 110)] empty_storage)
   \<and> length (matching_holdings ''us'' ''AAPL''
         (run_all [CreateHolding ''h-1'' 1 (position ''AAPL'' 5 100),
                   CreateHolding ''h-2'' 2 (position ''AAPL'' 7 110)] empty_storage)) = 2"
  by (simp add: run_defs example_defs exact_rounding)






section \<open>The metrics\<close>

lemma or_zero_currentPrice: "parseFloat (or_zero (h_currentPrice h)) = spec_currentPrice h"
proof (cases "h_currentPrice h")
  case None
  then show ?thesis by (simp add: spec_currentPrice_def)
next
  case (Some p)
  then show ?thesis by (cases p) (simp_all add: spec_currentPrice_def)
qed

lemma foldl_accumulate:
  "foldl accumulate (a, b) hs =
     (foldl num_add a (map spec_currentValue hs), foldl num_add b (map spec_costBasis hs))"
  by (induction hs arbitrary: a b)
     (simp_all add: accumulate_def Let_def or_zero_currentPrice spec_currentValue_def
        spec_costBasis_def)

lemma foldl_totalAmount:
  "foldl (\<lambda>sum t. num_add sum (parseFloat (t_totalAmount t))) a ts =
     foldl num_add a (map (\<lambda>t. parseFloat (t_totalAmount t)) ts)"
  by (induction ts arbitrary: a) simp_all

text \<open>
  C7 (amended). \<^verbatim>\<open>getHoldingsWithMetrics\<close> returns, for each holding of the portfolio in
  store order, currentValue = currentPrice \<open>\<times>\<close> quantity, totalGain = currentValue -
  averageCost \<open>\<times>\<close> quantity, and totalGainPercent = totalGain / (averageCost \<open>\<times>\<close> quantity)
  \<open>\<times>\<close> 100 when the cost basis is greater than 0 and 0 otherwise (a zero, negative or NaN
  cost basis), with an absent (or empty) currentPrice read as 0; every operation is in
  binary64 on the parsed fields, and nothing fails.
\<close>

theorem holdings_with_metrics_formulas:
  "getHoldingsWithMetrics pid s =
     map (\<lambda>h. \<lparr> hm_holding = h,
                 hm_currentValue = spec_currentValue h,
                 hm_totalGain = spec_totalGain h,
                 hm_totalGainPercent = guarded_percent (spec_totalGain h) (spec_costBasis h),
                 hm_marketData = map_of (marketData s) (h_symbol h) \<rparr>)
       (getHoldings pid s)"
  by (simp add: getHoldingsWithMetrics_def holdingMetrics_def Let_def or_zero_currentPrice
      spec_currentValue_def spec_totalGain_def spec_costBasis_def guarded_percent_def)

text \<open>
  C7 as stated fails where the cost basis is negative: after a buy of quantity -5 at
  price 10 on the empty store, the holding has cost basis -50 and total gain 50; the
  stated formula gives -100 percent, the code returns 0.
\<close>

theorem negative_cost_basis_counterexample:
  "map spec_costBasis
     (getHoldings ''us''
        (snd (createTransaction (draw ''1'' 1) (order ''buy'' ''AAPL'' (- 5) 10) empty_storage)))
     = [Num (- 50)]
   \<and> map hm_totalGain
     (getHoldingsWithMetrics ''us''
        (snd (createTransaction (draw ''1'' 1) (order ''buy'' ''AAPL'' (- 5) 10) empty_storage)))
     = [Num 50]
   \<and> map hm_totalGainPercent
     (getHoldingsWithMetrics ''us''
        (snd (createTransaction (draw ''1'' 1) (order ''buy'' ''AAPL'' (- 5) 10) empty_storage)))
     = [Num 0]
   \<and> num_mul (num_div (Num 50) (Num (- 50))) (Num 100) = Num (- 100)"
  by (simp add: run_defs example_defs exact_rounding)

text \<open>
  C8 (amended). For an existing portfolio \<^verbatim>\<open>getPortfolioWithMetrics\<close> returns totalValue
  = the sum of currentPrice \<open>\<times>\<close> quantity and cost = the sum of averageCost \<open>\<times>\<close> quantity
  over the portfolio's holdings, totalGain = totalValue - cost, totalGainPercent =
  totalGain / cost \<open>\<times>\<close> 100 when cost is greater than 0 and 0 otherwise, dividendYield =
  (the sum of totalAmount over the portfolio's dividend transactions) / totalValue \<open>\<times>\<close> 100
  when totalValue is greater than 0 and 0 otherwise, and holdingsCount = the number of
  holdings; the sums are added from the left in binary64. For a portfolio with no
  holdings all four numbers and the count are 0.
\<close>

theorem portfolio_with_metrics_formulas:
  assumes "map_of (portfolios s) ident = Some p"
  shows "getPortfolioWithMetrics ident s =
           Some \<lparr> pm_portfolio = p,
                  pm_totalValue = float_sum (map spec_currentValue (getHoldings ident s)),
                  pm_totalGain =
                    num_sub (float_sum (map spec_currentValue (getHoldings ident s)))
                            (float_sum (map spec_costBasis (getHoldings ident s))),
                  pm_totalGainPercent =
                    guarded_percent
                      (num_sub (float_sum (map spec_currentValue (getHoldings ident s)))
                               (float_sum (map spec_costBasis (getHoldings ident s))))
                      (float_sum (map spec_costBasis (getHoldings ident s))),
                  pm_dividendYield =
                    guarded_percent (dividend_total ident s)
                      (float_sum (map spec_currentValue (getHoldings ident s))),
                  pm_holdingsCount = length (getHoldings ident s) \<rparr>
       \<and> (getHoldings ident s = [] \<longrightarrow>
            getPortfolioWithMetrics ident s =
              Some \<lparr> pm_portfolio = p, pm_totalValue = Num 0, pm_totalGain = Num 0,
                     pm_totalGainPercent = Num 0, pm_dividendYield = Num 0,
                     pm_holdingsCount = 0 \<rparr>)"
proof -
  have general: "getPortfolioWithMetrics ident s =
           Some \<lparr> pm_portfolio = p,
                  pm_totalValue = float_sum (map spec_currentValue (getHoldings ident s)),
                  pm_totalGain =
                    num_sub (float_sum (map spec_currentValue (getHoldings ident s)))
                            (float_sum (map spec_costBasis (getHoldings ident s))),
                  pm_totalGainPercent =
                    guarded_percent
                      (num_sub (float_sum (map spec_currentValue (getHoldings ident s)))
                               (float_sum (map spec_costBasis (getHoldings ident s))))
                      (float_sum (map spec_costBasis (getHoldings ident s))),
                  pm_dividendYield =
                    guarded_percent (dividend_total ident s)
                      (float_sum (map spec_currentValue (getHoldings ident s))),
                  pm_holdingsCount = length (getHoldings ident s) \<rparr>"
    using assms
    by (simp add: getPortfolioWithMetrics_def Let_def foldl_accumulate foldl_totalAmount
        getHoldings_def float_sum_def guarded_percent_def dividends_def dividend_total_def)
  moreover have "getPortfolioWithMetrics ident s =
              Some \<lparr> pm_portfolio = p, pm_totalValue = Num 0, pm_totalGain = Num 0,
                     pm_totalGainPercent = Num 0, pm_dividendYield = Num 0,
                     pm_holdingsCount = 0 \<rparr>"
    if "getHoldings ident s = []"
    unfolding general that
    by (simp add: float_sum_def guarded_percent_def num_sub_def num_gt_def)
  ultimately show ?thesis by blast
qed

text \<open>
  The US portfolio of the sample store, and the international portfolio after its only
  holding has been sold.
\<close>

theorem portfolio_with_metrics_formulas_witness:
  "map_of (portfolios sample_storage) ''us'' = Some usPortfolio
   \<and> map_option pm_holdingsCount (getPortfolioWithMetrics ''us'' sample_storage) = Some 2
   \<and> map_option pm_totalValue (getPortfolioWithMetrics ''us'' sample_storage)
       = Some (float_sum (map spec_currentValue (getHoldings ''us'' sample_storage)))
   \<and> map_of
        (portfolios (snd (createTransaction (draw ''1'' 1)
           ((order ''sell'' ''ASML'' 10 600)\<lparr>it_portfolioId := ''intl''\<rparr>) sample_storage)))
        ''intl''
       \<noteq> None
   \<and> getHoldings ''intl''
        (snd (createTransaction (draw ''1'' 1)
           ((order ''sell'' ''ASML'' 10 600)\<lparr>it_portfolioId := ''intl''\<rparr>) sample_storage))
       = []
   \<and> map_option pm_totalValue
        (getPortfolioWithMetrics ''intl''
           (snd (createTransaction (draw ''1'' 1)
              ((order ''sell'' ''ASML'' 10 600)\<lparr>it_portfolioId := ''intl''\<rparr>) sample_storage)))
       = Some (Num 0)
   \<and> map_option pm_holdingsCount
        (getPortfolioWithMetrics ''intl''
           (snd (createTransaction (draw ''1'' 1)
              ((order ''sell'' ''ASML'' 10 600)\<lparr>it_portfolioId := ''intl''\<rparr>) sample_storage)))
       = Some 0"
proof -
  let ?s = "snd (createTransaction (draw ''1'' 1)
              ((order ''sell'' ''ASML'' 10 600)\<lparr>it_portfolioId := ''intl''\<rparr>) sample_storage)"
  have h1: "map_of (portfolios sample_storage) ''us'' = Some usPortfolio" by (simp add: run_defs example_defs exact_rounding)
  have n: "length (getHoldings ''us'' sample_storage) = 2" by (simp add: run_defs example_defs exact_rounding)
  have h2: "map_of (portfolios ?s) ''intl'' \<noteq> None" by (simp add: run_defs example_defs exact_rounding)
  then obtain p where p: "map_of (portfolios ?s) ''intl'' = Some p" by blast
  have h3: "getHoldings ''intl'' ?s = []" by (simp add: run_defs example_defs exact_rounding)
  have a: "map_option pm_holdingsCount (getPortfolioWithMetrics ''us'' sample_storage) = Some 2"
    and b: "map_option pm_totalValue (getPortfolioWithMetrics ''us'' sample_storage)
       = Some (float_sum (map spec_currentValue (getHoldings ''us'' sample_storage)))"
    using portfolio_with_metrics_formulas[OF h1] n by simp_all
  have "getPortfolioWithMetrics ''intl'' ?s =
          Some \<lparr> pm_portfolio = p, pm_totalValue = Num 0, pm_totalGain = Num 0,
                 pm_totalGainPercent = Num 0, pm_dividendYield = Num 0, pm_holdingsCount = 0 \<rparr>"
    using portfolio_with_metrics_formulas[OF p] h3 by blast
  then have c: "map_option pm_totalValue (getPortfolioWithMetrics ''intl'' ?s) = Some (Num 0)"
    and d: "map_option pm_holdingsCount (getPortfolioWithMetrics ''intl'' ?s) = Some 0"
    by simp_all
  show ?thesis using h1 h2 h3 a b c d by blast
qed

text \<open>
  C8 as stated fails where the total value is negative: on the sample store, after a buy
  of -100 AAPL and a dividend of 5, the US portfolio has total value -1018.75 and
  dividends 5; the stated formula gives a non-zero (negative) yield, the code returns 0.
\<close>

theorem negative_total_value_counterexample:
  "map_option pm_totalValue
     (getPortfolioWithMetrics ''us''
        (createTransactions
           [(draw ''1'' 1, order ''buy'' ''AAPL'' (- 100) 150),
            (draw ''2'' 2, order ''dividend'' ''AAPL'' 1 5)] sample_storage))
     = Some (Num (- 4075 / 4))
   \<and> dividend_total ''us''
        (createTransactions
           [(draw ''1'' 1, order ''buy'' ''AAPL'' (- 100) 150),
            (draw ''2'' 2, order ''dividend'' ''AAPL'' 1 5)] sample_storage)
     = Num 5
   \<and> map_option pm_dividendYield
     (getPortfolioWithMetrics ''us''
        (createTransactions
           [(draw ''1'' 1, order ''buy'' ''AAPL'' (- 100) 150),
            (draw ''2'' 2, order ''dividend'' ''AAPL'' 1 5)] sample_storage))
     = Some (Num 0)
   \<and> num_mul (num_div (Num 5) (Num (- 4075 / 4))) (Num 100) \<noteq> Num 0"
proof -
  have "num_mul (num_div (Num 5) (Num (- 4075 / 4))) (Num 100) \<noteq> Num 0" by code_simp
  then show ?thesis by (simp add: run_defs example_defs exact_rounding)
qed




text \<open>
  C10. A sell for a (portfolioId, symbol) that has no holding: \<^verbatim>\<open>createTransaction\<close>
  returns the new transaction (it has no failure), which carries the generated id, the
  fields of the request (with fees \<^verbatim>\<open>"0"\<close> when the request has none) and the creation
  time; it stores that transaction in the ledger under its id, and leaves the holdings,
  and the rest of the store, as they were. With a fresh id the ledger is the old one with
  the transaction appended (\<open>update_fresh_appends\<close>).
\<close>

theorem sell_without_holding_only_records:
  assumes "it_type it = ''sell''"
    and "first_holding (it_portfolioId it) (it_symbol it) s = None"
  shows "fst (createTransaction d it s) =
           \<lparr> t_id = txn_uuid d,
             t_portfolioId = it_portfolioId it,
             t_symbol = it_symbol it,
             t_type = it_type it,
             t_quantity = it_quantity it,
             t_price = it_price it,
             t_totalAmount = it_totalAmount it,
             t_fees = Some (or_zero (it_fees it)),
             t_currency = it_currency it,
             t_exchange = it_exchange it,
             t_date = it_date it,
             t_createdAt = txn_now d \<rparr>
       \<and> snd (createTransaction d it s) =
           s\<lparr>transactions :=
               AList.update (txn_uuid d) (fst (createTransaction d it s)) (transactions s)\<rparr>
       \<and> holdings (snd (createTransaction d it s)) = holdings s
       \<and> map_of (transactions (snd (createTransaction d it s))) (txn_uuid d)
           = Some (fst (createTransaction d it s))"
  using sell_absent[OF assms, of d]
  by (simp add: update_conv' newTransaction_def)

text \<open>Selling NVDA, which the sample store does not hold.\<close>

theorem sell_without_holding_only_records_witness:
  "it_type (order ''sell'' ''NVDA'' 5 120) = ''sell''
   \<and> first_holding (it_portfolioId (order ''sell'' ''NVDA'' 5 120))
        (it_symbol (order ''sell'' ''NVDA'' 5 120)) sample_storage = None
   \<and> fst (createTransaction (draw ''1'' 1) (order ''sell'' ''NVDA'' 5 120) sample_storage) =
       \<lparr> t_id = ''t-1'', t_portfolioId = ''us'', t_symbol = ''NVDA'', t_type = ''sell'',
         t_quantity = Decimal 5, t_price = Decimal 120, t_totalAmount = Decimal 600,
         t_fees = Some (Decimal 0), t_currency = ''USD'', t_exchange = ''NASDAQ'',
         t_date = 1700000000000, t_createdAt = 1 \<rparr>
   \<and> holdings (snd (createTransaction (draw ''1'' 1) (order ''sell'' ''NVDA'' 5 120)
                       sample_storage)) = holdings sample_storage
   \<and> map_of (transactions (snd (createTransaction (draw ''1'' 1) (order ''sell'' ''NVDA'' 5 120)
                                  sample_storage))) ''t-1''
       = Some (fst (createTransaction (draw ''1'' 1) (order ''sell'' ''NVDA'' 5 120)
                      sample_storage))"
proof -
  have h1: "it_type (order ''sell'' ''NVDA'' 5 120) = ''sell''"
    by (simp add: run_defs example_defs exact_rounding)
  have h2: "first_holding (it_portfolioId (order ''sell'' ''NVDA'' 5 120))
        (it_symbol (order ''sell'' ''NVDA'' 5 120)) sample_storage = None"
    by (simp add: run_defs example_defs exact_rounding)
  have e: "txn_uuid (draw ''1'' 1) = ''t-1''" "txn_now (draw ''1'' 1) = 1"
    "it_portfolioId (order ''sell'' ''NVDA'' 5 120) = ''us''"
    "it_symbol (order ''sell'' ''NVDA'' 5 120) = ''NVDA''"
    "it_quantity (order ''sell'' ''NVDA'' 5 120) = Decimal 5"
    "it_price (order ''sell'' ''NVDA'' 5 120) = Decimal 120"
    "it_totalAmount (order ''sell'' ''NVDA'' 5 120) = Decimal 600"
    "it_fees (order ''sell'' ''NVDA'' 5 120) = None"
    "it_currency (order ''sell'' ''NVDA'' 5 120) = ''USD''"
    "it_exchange (order ''sell'' ''NVDA'' 5 120) = ''NASDAQ''"
    "it_date (order ''sell'' ''NVDA'' 5 120) = 1700000000000"
    by (simp_all add: draw_def order_def)
  show ?thesis
    using sell_without_holding_only_records[OF h1 h2, of "draw ''1'' 1"]
    unfolding e h1 or_zero.simps using h1 h2 unfolding e by blast
qed

end
